theory Spec2Isabelle
  imports Main
begin

section \<open>URL classifier of the background script\<close>

text \<open>
  The background service worker (javascripts/background.js) decides from a URL string whether
  a navigation concerns a Zendesk ticket. Its regular expressions are anchored at the start
  of the string, use no flags, and have a single way to match: the subdomain group
  \<open>([^.]+)\<close> is followed by a literal dot, so it is the text before the first dot, and the
  id group \<open>(\d+)\<close> is the longest run of digits. Each expression is modelled by a function
  that returns the captured groups, \<open>None\<close> standing for a failed match (\<open>null\<close>).
  JavaScript strings are modelled as \<open>string\<close>.
\<close>

fun stripPrefix :: "string \<Rightarrow> string \<Rightarrow> string option" where
  "stripPrefix [] s = Some s"
| "stripPrefix (p # ps) [] = None"
| "stripPrefix (p # ps) (c # cs) = (if p = c then stripPrefix ps cs else None)"

text \<open>\<open>String.prototype.includes\<close>: the needle occurs somewhere in the string.\<close>

fun str_includes :: "string \<Rightarrow> string \<Rightarrow> bool" where
  "str_includes [] p = (p = [])"
| "str_includes (c # cs) p = (stripPrefix p (c # cs) \<noteq> None \<or> str_includes cs p)"

definition digit :: "char \<Rightarrow> bool" where
  "digit c = (c \<in> set ''0123456789'')"

text \<open>\<open>^https?:\/\/\<close>: the text after the scheme.\<close>

definition httpScheme :: "string \<Rightarrow> string option" where
  "httpScheme u =
     (case stripPrefix ''http'' u of
        None \<Rightarrow> None
      | Some r \<Rightarrow>
          (case stripPrefix ''s://'' r of
             Some t \<Rightarrow> Some t
           | None \<Rightarrow> stripPrefix ''://'' r))"

text \<open>
  \<open>^https?:\/\/([^.]+)\.zendesk\.com\<close>, the expression of \<open>extractSubdomain\<close> and the common
  head of both ticket routes: group 1 and the text after the match.
\<close>

definition zendeskHost :: "string \<Rightarrow> (string \<times> string) option" where
  "zendeskHost u =
     (case httpScheme u of
        None \<Rightarrow> None
      | Some r \<Rightarrow>
          (let sub = takeWhile (\<lambda>c. c \<noteq> CHR ''.'') r;
               rest = dropWhile (\<lambda>c. c \<noteq> CHR ''.'') r
           in if sub = [] then None
              else (case stripPrefix ''.zendesk.com'' rest of
                      None \<Rightarrow> None
                    | Some t \<Rightarrow> Some (sub, t))))"

text \<open>\<open>(tickets|views)\/(\d+)\<close>: groups 2 and 3.\<close>

definition routeTail :: "string \<Rightarrow> (string \<times> string) option" where
  "routeTail r =
     (case (case stripPrefix ''tickets'' r of
              Some t \<Rightarrow> Some (''tickets'', t)
            | None \<Rightarrow>
                (case stripPrefix ''views'' r of
                   Some t \<Rightarrow> Some (''views'', t)
                 | None \<Rightarrow> None)) of
        None \<Rightarrow> None
      | Some (ty, t) \<Rightarrow>
          (case stripPrefix ''/'' t of
             None \<Rightarrow> None
           | Some d \<Rightarrow>
               (let n = takeWhile digit d
                in if n = [] then None else Some (ty, n))))"

text \<open>\<open>TICKET_ROUTE = /^https?:\/\/([^.]+)\.zendesk\.com\/agent\/(tickets|views)\/(\d+)/\<close>\<close>

definition TICKET_ROUTE :: "string \<Rightarrow> (string \<times> string \<times> string) option" where
  "TICKET_ROUTE u =
     (case zendeskHost u of
        None \<Rightarrow> None
      | Some (sub, t) \<Rightarrow>
          (case stripPrefix ''/agent/'' t of
             None \<Rightarrow> None
           | Some r \<Rightarrow>
               (case routeTail r of
                  None \<Rightarrow> None
                | Some (ty, n) \<Rightarrow> Some (sub, ty, n))))"

text \<open>\<open>HASH_TICKET_ROUTE = /^https?:\/\/([^.]+)\.zendesk\.com\/agent\/#\/(tickets|views)\/(\d+)/\<close>\<close>

definition HASH_TICKET_ROUTE :: "string \<Rightarrow> (string \<times> string \<times> string) option" where
  "HASH_TICKET_ROUTE u =
     (case zendeskHost u of
        None \<Rightarrow> None
      | Some (sub, t) \<Rightarrow>
          (case stripPrefix ''/agent/#/'' t of
             None \<Rightarrow> None
           | Some r \<Rightarrow>
               (case routeTail r of
                  None \<Rightarrow> None
                | Some (ty, n) \<Rightarrow> Some (sub, ty, n))))"

text \<open>\<open>url.match(TICKET_ROUTE) || url.match(HASH_TICKET_ROUTE)\<close>, then group 3.\<close>

definition extractTicketNumber :: "string \<Rightarrow> string option" where
  "extractTicketNumber url =
     (case (case TICKET_ROUTE url of
              Some m \<Rightarrow> Some m
            | None \<Rightarrow> HASH_TICKET_ROUTE url) of
        Some (sub, ty, n) \<Rightarrow> Some n
      | None \<Rightarrow> None)"

definition extractSubdomain :: "string \<Rightarrow> string option" where
  "extractSubdomain url =
     (case zendeskHost url of
        Some (sub, t) \<Rightarrow> Some sub
      | None \<Rightarrow> None)"

text \<open>The test the dispatcher applies: \<open>TICKET_ROUTE.test(url) || HASH_TICKET_ROUTE.test(url)\<close>.\<close>

definition isTicketUrl :: "string \<Rightarrow> bool" where
  "isTicketUrl url = (TICKET_ROUTE url \<noteq> None \<or> HASH_TICKET_ROUTE url \<noteq> None)"

text \<open>The clean ticket URL that \<open>reuseZendeskTab\<close> builds from the two extracted parts.\<close>

definition cleanUrl :: "string \<Rightarrow> string \<Rightarrow> string" where
  "cleanUrl subdomain ticketNumber =
     ''https://'' @ subdomain @ ''.zendesk.com/agent/tickets/'' @ ticketNumber"

text \<open>\<open>isZendeskUrl\<close>: \<open>url && url.includes('zendesk.com')\<close>.\<close>

definition isZendeskUrl :: "string \<Rightarrow> bool" where
  "isZendeskUrl url = (url \<noteq> [] \<and> str_includes url ''zendesk.com'')"

text \<open>\<open>TEAMS_SAFEURL = /^https?:\/\/statics\.teams\.cdn\.office\.net\/evergreen-assets\/safelinks/\<close>\<close>

definition TEAMS_SAFEURL :: "string \<Rightarrow> bool" where
  "TEAMS_SAFEURL u =
     (case httpScheme u of
        None \<Rightarrow> False
      | Some r \<Rightarrow>
          stripPrefix ''statics.teams.cdn.office.net/evergreen-assets/safelinks'' r \<noteq> None)"

subsection \<open>Built-ins of the JavaScript platform\<close>

text \<open>
  The script calls three built-ins of the browser that are not code of the extension: the
  \<open>URL\<close> constructor, \<open>URLSearchParams.get\<close> and \<open>decodeURIComponent\<close>. They are
  parameters of the model. \<open>newURL\<close> yields the components the script reads, or \<open>None\<close>
  where the constructor throws; \<open>searchParamsGet q k\<close> is
  \<open>new URLSearchParams(q).get(k)\<close>; \<open>decodeURIComponent\<close> yields \<open>None\<close> where the
  built-in throws a URIError.
\<close>

record urlParts =
  url_hostname :: string
  url_pathname :: string
  url_hash :: string

record platform =
  newURL :: "string \<Rightarrow> urlParts option"
  searchParamsGet :: "string \<Rightarrow> string \<Rightarrow> string option"
  decodeURIComponent :: "string \<Rightarrow> string option"

text \<open>\<open>url.split('?')[1]\<close>: the text between the first and the second question mark,
  \<open>undefined\<close> when there is no question mark.\<close>

definition splitQuestion1 :: "string \<Rightarrow> string option" where
  "splitQuestion1 url =
     (case dropWhile (\<lambda>c. c \<noteq> CHR ''?'') url of
        [] \<Rightarrow> None
      | q # t \<Rightarrow> Some (takeWhile (\<lambda>c. c \<noteq> CHR ''?'') t))"

text \<open>
  \<open>extractZendeskUrlFromTeams\<close>. \<open>new URLSearchParams(undefined)\<close> is empty, so a URL
  without a question mark yields \<open>null\<close>; an empty parameter is falsy; an error of
  \<open>decodeURIComponent\<close> is caught and yields \<open>null\<close>.
\<close>

definition extractZendeskUrlFromTeams :: "platform \<Rightarrow> string \<Rightarrow> string option" where
  "extractZendeskUrlFromTeams P url =
     (if \<not> TEAMS_SAFEURL url then None
      else (case splitQuestion1 url of
              None \<Rightarrow> None
            | Some q \<Rightarrow>
                (case searchParamsGet P q ''url'' of
                   None \<Rightarrow> None
                 | Some encodedUrl \<Rightarrow>
                     if encodedUrl = [] then None
                     else decodeURIComponent P encodedUrl)))"

subsection \<open>Restricted Zendesk views (the V1.2 service worker)\<close>

text \<open>\<open>String.prototype.toLowerCase\<close> on the ASCII letters; the components of a parsed URL
  are ASCII.\<close>

definition lowerChar :: "char \<Rightarrow> char" where
  "lowerChar c =
     (case map_of (zip ''ABCDEFGHIJKLMNOPQRSTUVWXYZ'' ''abcdefghijklmnopqrstuvwxyz'') c of
        None \<Rightarrow> c
      | Some l \<Rightarrow> l)"

definition toLowerCase :: "string \<Rightarrow> string" where
  "toLowerCase s = map lowerChar s"

text \<open>\<open>/\.zendesk\.com$/i.test(hostname)\<close>\<close>

definition zendeskHostname :: "string \<Rightarrow> bool" where
  "zendeskHostname h = (stripPrefix (rev ''.zendesk.com'') (rev (toLowerCase h)) \<noteq> None)"

text \<open>\<open>/\/tickets\/\d+\/print/i\<close>, unanchored: a match at the head of some suffix.\<close>

definition printViewAt :: "string \<Rightarrow> bool" where
  "printViewAt s =
     (case stripPrefix ''/tickets/'' s of
        None \<Rightarrow> False
      | Some d \<Rightarrow>
          takeWhile digit d \<noteq> [] \<and> stripPrefix ''/print'' (dropWhile digit d) \<noteq> None)"

fun printView :: "string \<Rightarrow> bool" where
  "printView [] = False"
| "printView (c # cs) = (printViewAt (c # cs) \<or> printView cs)"

text \<open>
  \<open>RESTRICTED_ROUTE = /^https?:\/\/(.*)\.zendesk\.com\/(agent\/(chat|talk|admin\/voice)\/?(.*)|tickets\/\d*\/print)/\<close>:
  the group \<open>(.*)\<close> runs over any characters but line terminators, and the rest of the
  expression has to match where it stops.
\<close>

definition restrictedTail :: "string \<Rightarrow> bool" where
  "restrictedTail s =
     (case stripPrefix ''.zendesk.com/'' s of
        None \<Rightarrow> False
      | Some t \<Rightarrow>
          (case stripPrefix ''agent/'' t of
             Some a \<Rightarrow>
               stripPrefix ''chat'' a \<noteq> None \<or> stripPrefix ''talk'' a \<noteq> None
               \<or> stripPrefix ''admin/voice'' a \<noteq> None
           | None \<Rightarrow>
               (case stripPrefix ''tickets/'' t of
                  None \<Rightarrow> False
                | Some d \<Rightarrow> stripPrefix ''/print'' (dropWhile digit d) \<noteq> None)))"

fun restrictedScan :: "string \<Rightarrow> bool" where
  "restrictedScan [] = False"
| "restrictedScan (c # cs) =
     (restrictedTail (c # cs) \<or> (c \<noteq> CHR 0x0A \<and> c \<noteq> CHR 0x0D \<and> restrictedScan cs))"

definition RESTRICTED_ROUTE :: "string \<Rightarrow> bool" where
  "RESTRICTED_ROUTE u = (case httpScheme u of None \<Rightarrow> False | Some r \<Rightarrow> restrictedScan r)"

definition restrictedView :: "string \<Rightarrow> bool" where
  "restrictedView s =
     (str_includes s ''/agent/chat'' \<or> str_includes s ''/agent/talk''
      \<or> str_includes s ''/agent/voice'' \<or> str_includes s ''/agent/admin/voice'')"

text \<open>\<open>isRestrictedZendeskUrl\<close>; the \<open>catch\<close> branch runs when the URL constructor throws.\<close>

definition isRestrictedZendeskUrl :: "platform \<Rightarrow> string \<Rightarrow> bool" where
  "isRestrictedZendeskUrl P rawUrl =
     (case newURL P rawUrl of
        None \<Rightarrow> RESTRICTED_ROUTE rawUrl
      | Some u \<Rightarrow>
          if \<not> zendeskHostname (url_hostname u) then False
          else (let p = toLowerCase (url_pathname u); h = toLowerCase (url_hash u)
                in if restrictedView p then True
                   else if restrictedView h then True
                   else if printView (toLowerCase (url_pathname u)) then True
                   else False))"

section \<open>Tab tracking and locks\<close>

text \<open>
  The module-level variables of background.js: \<open>recentNewTabs\<close> (a Map from tab id to the
  time the tab was created), \<open>navigationTabs\<close> (a Set of tab ids), \<open>ongoingNavigations\<close>
  (a Set of navigation keys) and the flag \<open>isNavigating\<close>. Tab ids and times are JavaScript
  numbers with integer values. \<open>Date.now()\<close> is the argument \<open>now\<close> of the functions
  that read the clock. The debug log is not part of the model.
\<close>

record state =
  recentNewTabs :: "int \<rightharpoonup> int"
  navigationTabs :: "int set"
  ongoingNavigations :: "string set"
  isNavigating :: bool

definition NEW_TAB_WINDOW_MS :: int where
  "NEW_TAB_WINDOW_MS = 5000"

definition markTabNew :: "int \<Rightarrow> int \<Rightarrow> state \<Rightarrow> state" where
  "markTabNew now tabId st = st\<lparr>recentNewTabs := (recentNewTabs st)(tabId \<mapsto> now)\<rparr>"

text \<open>
  \<open>isTabRecentlyNew\<close> returns its answer and the state, from which an expired entry has been
  deleted. A tab in \<open>navigationTabs\<close> is answered \<open>false\<close> before the map is read;
  \<open>!ts\<close> holds for a missing entry and for the time 0.
\<close>

definition isTabRecentlyNew :: "int \<Rightarrow> int \<Rightarrow> state \<Rightarrow> bool \<times> state" where
  "isTabRecentlyNew now tabId st =
     (if tabId \<in> navigationTabs st then (False, st)
      else (case recentNewTabs st tabId of
              None \<Rightarrow> (False, st)
            | Some ts \<Rightarrow>
                if ts = 0 then (False, st)
                else (let age = now - ts;
                          isRecent = (age \<le> NEW_TAB_WINDOW_MS)
                      in if \<not> isRecent
                         then (isRecent, st\<lparr>recentNewTabs := (recentNewTabs st)(tabId := None)\<rparr>)
                         else (isRecent, st))))"

definition clearNavigationTab :: "int \<Rightarrow> state \<Rightarrow> state" where
  "clearNavigationTab tabId st =
     st\<lparr>navigationTabs := navigationTabs st - {tabId},
        recentNewTabs := (recentNewTabs st)(tabId := None)\<rparr>"

section \<open>Browser calls, timers and results\<close>

text \<open>
  A handler is an asynchronous function. Its model runs it from start to end and returns the
  new state, the browser calls it made in order, the timers it set with their delay in
  milliseconds, and how it ended: by returning or with an exception (a rejected promise).
  What each browser call answers is given by an environment, one field for each place of
  the code that calls the browser. Handlers that run between two steps of one handler are
  outside this model; a property of a handler that starts while another one is under way is
  stated for a start state that holds what the first one has written so far.
\<close>

record tab =
  tab_id :: int
  tab_url :: string
  tab_windowId :: int
  tab_lastAccessed :: "int option"

datatype call =
    StorageGet
  | TabsQuery string
  | TabsUpdateActive int
  | WindowsUpdateFocused int
  | ExecuteScript int string
  | TabsUpdateUrl int string
  | TabsGet int
  | TabsRemove int

datatype timer =
    ReleaseGlobalLock
  | ReleaseNavigationKey string
  | CloseNewTab int
  | ForceSourceNavigation int int string

datatype jsError = TypeError | RangeError | ReferenceError | ApiError

datatype completion = Returned | Threw jsError

record result =
  res_state :: state
  res_calls :: "call list"
  res_timers :: "(nat \<times> timer) list"
  res_completion :: completion

text \<open>
  What the injected function reports to \<open>chrome.scripting.executeScript\<close>: the promise
  rejects, or \<open>results[0]?.result\<close> is missing, or it is the object the function returns,
  with its \<open>success\<close> field (the function always adds a \<open>logs\<close> array).
\<close>

datatype scriptOutcome = ScriptRejects | ScriptNoResult | ScriptResult bool

text \<open>
  The environment of one run of \<open>reuseZendeskTab\<close>. \<open>env_settings\<close> is the truth value of
  \<open>settings.noReloadNavigation\<close>, \<open>env_query\<close> the tabs that \<open>chrome.tabs.query\<close> returns;
  \<open>None\<close> is a rejected promise. The Boolean fields say whether the call resolves: the two
  focus calls, and the URL update after a failed script (line 474), in the inner
  \<open>catch\<close> (line 480) and in reload mode (line 485).
\<close>

record env =
  env_settings :: "bool option"
  env_query :: "tab list option"
  env_focusTab :: bool
  env_focusWindow :: bool
  env_script :: scriptOutcome
  env_updateAfterFailure :: bool
  env_updateAfterError :: bool
  env_updateWithReload :: bool

text \<open>\<open>tabExists\<close>: \<open>tabsGet\<close> is \<open>chrome.tabs.get\<close>, \<open>None\<close> where it rejects.\<close>

definition tabExists :: "(int \<Rightarrow> tab option) \<Rightarrow> int \<Rightarrow> bool" where
  "tabExists tabsGet tabId =
     (case tabsGet tabId of
        None \<Rightarrow> False
      | Some t \<Rightarrow> tab_id t = tabId)"

text \<open>A template literal prints \<open>null\<close> for a missing value.\<close>

definition jsString :: "string option \<Rightarrow> string" where
  "jsString v = (case v of None \<Rightarrow> ''null'' | Some s \<Rightarrow> s)"

definition navigationKey :: "string option \<Rightarrow> string option \<Rightarrow> string" where
  "navigationKey subdomain ticketNumber = jsString subdomain @ ''-'' @ jsString ticketNumber"

definition finished :: "state \<Rightarrow> result" where
  "finished st = \<lparr>res_state = st, res_calls = [], res_timers = [], res_completion = Returned\<rparr>"

section \<open>The hand-off: \<open>reuseZendeskTab\<close>\<close>

text \<open>The candidates (\<open>allTabs.filter\<close>) and the choice among them (\<open>candidates.reduce\<close>
  without a start value: the first candidate starts, a later one wins a tie).\<close>

definition candidateTabs :: "int \<Rightarrow> tab list \<Rightarrow> tab list" where
  "candidateTabs newTabId allTabs =
     filter (\<lambda>t. tab_id t \<noteq> newTabId \<and> str_includes (tab_url t) ''/agent/'') allTabs"

definition lastAccessedOr0 :: "tab \<Rightarrow> int" where
  "lastAccessedOr0 t = (case tab_lastAccessed t of None \<Rightarrow> 0 | Some v \<Rightarrow> v)"

definition chooseTarget :: "tab \<Rightarrow> tab list \<Rightarrow> tab" where
  "chooseTarget c cs =
     foldl (\<lambda>a b. if lastAccessedOr0 a > lastAccessedOr0 b then a else b) c cs"

text \<open>
  \<open>new Date(targetTab.lastAccessed).toISOString()\<close> sits in a template literal that is
  evaluated whether or not the log is enabled. It throws a RangeError for a missing time
  and for one beyond the range of \<open>Date\<close>.
\<close>

definition toISOStringOk :: "int option \<Rightarrow> bool" where
  "toISOStringOk v = (case v of None \<Rightarrow> False | Some t \<Rightarrow> \<bar>t\<bar> \<le> 8640000000000000)"

text \<open>
  The navigation of the target tab (lines 349 to 486): the calls made and how the step ends.
  In no-reload mode the log line reads \<open>new URL(targetTab.url).pathname\<close> first. Inside the
  inner \<open>try\<close>, a rejected script, a missing result (\<open>result.logs\<close> then throws a
  TypeError) and a rejected update at line 474 all lead to the inner \<open>catch\<close>, which
  updates the URL at line 480.
\<close>

definition navigateTarget ::
  "platform \<Rightarrow> env \<Rightarrow> bool \<Rightarrow> tab \<Rightarrow> string \<Rightarrow> call list \<times> completion" where
  "navigateTarget P env useNoReload targetTab url =
     (let script = ExecuteScript (tab_id targetTab) url;
          update = TabsUpdateUrl (tab_id targetTab) url
      in if useNoReload then
           (case newURL P (tab_url targetTab) of
              None \<Rightarrow> ([], Threw TypeError)
            | Some u \<Rightarrow>
                (case env_script env of
                   ScriptResult True \<Rightarrow> ([script], Returned)
                 | ScriptResult False \<Rightarrow>
                     if env_updateAfterFailure env then ([script, update], Returned)
                     else if env_updateAfterError env then ([script, update, update], Returned)
                     else ([script, update, update], Threw ApiError)
                 | ScriptNoResult \<Rightarrow>
                     if env_updateAfterError env then ([script, update], Returned)
                     else ([script, update], Threw ApiError)
                 | ScriptRejects \<Rightarrow>
                     if env_updateAfterError env then ([script, update], Returned)
                     else ([script, update], Threw ApiError)))
         else if env_updateWithReload env then ([update], Returned)
         else ([update], Threw ApiError))"

text \<open>
  The \<open>try\<close> block from the tab query on, entered once the navigation key is in
  \<open>ongoingNavigations\<close> (lines 284 to 500).
\<close>

definition reuseLocked ::
  "platform \<Rightarrow> env \<Rightarrow> state \<Rightarrow> int \<Rightarrow> bool \<Rightarrow> string \<Rightarrow> string \<Rightarrow> result" where
  "reuseLocked P env st newTabId useNoReload subdomain ticketNumber =
     (let key = navigationKey (Some subdomain) (Some ticketNumber);
          query = TabsQuery (''*://'' @ subdomain @ ''.zendesk.com/*'')
      in case env_query env of
           None \<Rightarrow>
             \<lparr>res_state = st, res_calls = [query], res_timers = [],
              res_completion = Threw ApiError\<rparr>
         | Some allTabs \<Rightarrow>
             (case candidateTabs newTabId allTabs of
                [] \<Rightarrow>
                  \<lparr>res_state = st, res_calls = [query], res_timers = [],
                   res_completion = Returned\<rparr>
              | c # cs \<Rightarrow>
                  (let targetTab = chooseTarget c cs;
                       url = cleanUrl subdomain ticketNumber;
                       focusTab = TabsUpdateActive (tab_id targetTab);
                       focusWindow = WindowsUpdateFocused (tab_windowId targetTab)
                   in if \<not> toISOStringOk (tab_lastAccessed targetTab) then
                        \<lparr>res_state = st, res_calls = [query], res_timers = [],
                         res_completion = Threw RangeError\<rparr>
                      else if \<not> env_focusTab env then
                        \<lparr>res_state = st, res_calls = [query, focusTab], res_timers = [],
                         res_completion = Threw ApiError\<rparr>
                      else if \<not> env_focusWindow env then
                        \<lparr>res_state = st, res_calls = [query, focusTab, focusWindow],
                         res_timers = [], res_completion = Threw ApiError\<rparr>
                      else if tab_url targetTab = url then
                        \<lparr>res_state = st\<lparr>ongoingNavigations := ongoingNavigations st - {key},
                                         isNavigating := False\<rparr>,
                         res_calls = [query, focusTab, focusWindow],
                         res_timers = [(100, CloseNewTab newTabId)],
                         res_completion = Returned\<rparr>
                      else (case navigateTarget P env useNoReload targetTab url of
                              (calls, Threw e) \<Rightarrow>
                                \<lparr>res_state = st,
                                 res_calls = [query, focusTab, focusWindow] @ calls,
                                 res_timers = [], res_completion = Threw e\<rparr>
                            | (calls, Returned) \<Rightarrow>
                                \<lparr>res_state =
                                   st\<lparr>ongoingNavigations := ongoingNavigations st - {key}\<rparr>,
                                 res_calls = [query, focusTab, focusWindow] @ calls,
                                 res_timers = [(100, CloseNewTab newTabId)],
                                 res_completion = Returned\<rparr>))))"

text \<open>The whole \<open>try\<close> block (lines 249 to 500).\<close>

definition tryBlock :: "platform \<Rightarrow> env \<Rightarrow> state \<Rightarrow> int \<Rightarrow> string \<Rightarrow> result" where
  "tryBlock P env st newTabId ticketUrl =
     (case env_settings env of
        None \<Rightarrow>
          \<lparr>res_state = st, res_calls = [StorageGet], res_timers = [],
           res_completion = Threw ApiError\<rparr>
      | Some useNoReload \<Rightarrow>
          (case (extractSubdomain ticketUrl, extractTicketNumber ticketUrl) of
             (Some subdomain, Some ticketNumber) \<Rightarrow>
               if subdomain = [] \<or> ticketNumber = [] then
                 \<lparr>res_state = st, res_calls = [StorageGet], res_timers = [],
                  res_completion = Returned\<rparr>
               else
                 (let key = navigationKey (Some subdomain) (Some ticketNumber)
                  in if key \<in> ongoingNavigations st then
                       \<lparr>res_state = st, res_calls = [StorageGet], res_timers = [],
                        res_completion = Returned\<rparr>
                     else
                       (let r = reuseLocked P env
                                  (st\<lparr>ongoingNavigations := insert key (ongoingNavigations st)\<rparr>)
                                  newTabId useNoReload subdomain ticketNumber
                        in r\<lparr>res_calls := StorageGet # res_calls r,
                             res_timers := (5000, ReleaseNavigationKey key) # res_timers r\<rparr>))
           | _ \<Rightarrow>
               \<lparr>res_state = st, res_calls = [StorageGet], res_timers = [],
                res_completion = Returned\<rparr>))"

text \<open>
  \<open>reuseZendeskTab\<close>: the flag is set and its 3000 ms timer started, then
  \<open>try\<close>/\<open>catch\<close>/\<open>finally\<close>. The \<open>catch\<close> block is
  \<open>debugLogger.error(...); ongoingNavigations.delete(navigationKey);\<close>, but
  \<open>navigationKey\<close> is a \<open>const\<close> of the \<open>try\<close> block and no variable of that name
  is in scope in the \<open>catch\<close> block or in the module, so evaluating the argument throws a
  ReferenceError and nothing is deleted. The \<open>finally\<close> block clears the flag in every case.
\<close>

definition catchBlock :: "result \<Rightarrow> result" where
  "catchBlock r = r\<lparr>res_completion := Threw ReferenceError\<rparr>"

definition finallyBlock :: "result \<Rightarrow> result" where
  "finallyBlock r = r\<lparr>res_state := (res_state r)\<lparr>isNavigating := False\<rparr>\<rparr>"

definition reuseZendeskTab :: "platform \<Rightarrow> env \<Rightarrow> state \<Rightarrow> int \<Rightarrow> string \<Rightarrow> result" where
  "reuseZendeskTab P env st newTabId ticketUrl =
     (let r = tryBlock P env (st\<lparr>isNavigating := True\<rparr>) newTabId ticketUrl;
          r' = finallyBlock (case res_completion r of
                               Returned \<Rightarrow> r
                             | Threw e \<Rightarrow> catchBlock r)
      in r'\<lparr>res_timers := (3000, ReleaseGlobalLock) # res_timers r'\<rparr>)"

section \<open>The event dispatcher\<close>

text \<open>\<open>processZendeskNavigation\<close>: the check of the navigation key comes before the
  recency check, which may delete an expired entry.\<close>

definition processZendeskNavigation ::
  "platform \<Rightarrow> env \<Rightarrow> int \<Rightarrow> state \<Rightarrow> int \<Rightarrow> string \<Rightarrow> result" where
  "processZendeskNavigation P env now st tabId url =
     (let key = navigationKey (extractSubdomain url) (extractTicketNumber url)
      in if key \<in> ongoingNavigations st then finished st
         else (case isTabRecentlyNew now tabId st of
                 (False, st') \<Rightarrow> finished st'
               | (True, st') \<Rightarrow> reuseZendeskTab P env st' tabId url))"

record navDetails =
  nd_tabId :: int
  nd_url :: string
  nd_frameId :: int

text \<open>The early loop check of \<open>handleNavigation\<close> (lines 542 to 555).\<close>

definition earlyLoopDetected :: "state \<Rightarrow> string \<Rightarrow> bool" where
  "earlyLoopDetected st url =
     (isZendeskUrl url \<and>
      (case (extractSubdomain url, extractTicketNumber url) of
         (Some subdomain, Some ticketNumber) \<Rightarrow>
           subdomain \<noteq> [] \<and> ticketNumber \<noteq> [] \<and>
           navigationKey (Some subdomain) (Some ticketNumber) \<in> ongoingNavigations st
       | _ \<Rightarrow> False))"

text \<open>\<open>zendeskUrl && TICKET_ROUTE.test(zendeskUrl)\<close> of the Teams branch.\<close>

definition teamsTicketUrl :: "platform \<Rightarrow> string \<Rightarrow> string option" where
  "teamsTicketUrl P url =
     (case extractZendeskUrlFromTeams P url of
        None \<Rightarrow> None
      | Some zendeskUrl \<Rightarrow>
          if zendeskUrl \<noteq> [] \<and> TICKET_ROUTE zendeskUrl \<noteq> None then Some zendeskUrl else None)"

text \<open>\<open>handleNavigation\<close>, the listener of \<open>webNavigation.onCompleted\<close> and of
  \<open>webNavigation.onHistoryStateUpdated\<close>.\<close>

definition handleNavigation ::
  "platform \<Rightarrow> env \<Rightarrow> int \<Rightarrow> state \<Rightarrow> navDetails \<Rightarrow> result" where
  "handleNavigation P env now st details =
     (if isNavigating st then finished st
      else if nd_frameId details \<noteq> 0 then finished st
      else if earlyLoopDetected st (nd_url details) then finished st
      else (case (if TEAMS_SAFEURL (nd_url details) then teamsTicketUrl P (nd_url details)
                  else None) of
              Some zendeskUrl \<Rightarrow>
                processZendeskNavigation P env now st (nd_tabId details) zendeskUrl
            | None \<Rightarrow>
                if \<not> isTicketUrl (nd_url details) then finished st
                else processZendeskNavigation P env now st (nd_tabId details) (nd_url details)))"

text \<open>\<open>tabs.onCreated\<close> (\<open>if (tab.id) markTabNew(tab.id)\<close>; the id 0 is falsy) and the
  second \<open>tabs.onRemoved\<close> listener. The badge is not part of the model.\<close>

definition onCreated :: "int \<Rightarrow> state \<Rightarrow> int \<Rightarrow> state" where
  "onCreated now st tabId = (if tabId \<noteq> 0 then markTabNew now tabId st else st)"

definition onRemoved :: "state \<Rightarrow> int \<Rightarrow> state" where
  "onRemoved st tabId =
     st\<lparr>navigationTabs := navigationTabs st - {tabId},
        recentNewTabs := (recentNewTabs st)(tabId := None)\<rparr>"

record navTargetDetails =
  nt_sourceTabId :: int
  nt_tabId :: int
  nt_url :: string

text \<open>The listener of \<open>webNavigation.onCreatedNavigationTarget\<close>: the new state and the
  timers set. Both branches add the new tab to \<open>navigationTabs\<close>.\<close>

definition onCreatedNavigationTarget ::
  "state \<Rightarrow> navTargetDetails \<Rightarrow> state \<times> (nat \<times> timer) list" where
  "onCreatedNavigationTarget st details =
     (if isNavigating st \<and> nt_sourceTabId details \<noteq> 0 \<and> nt_tabId details \<noteq> 0
         \<and> nt_url details \<noteq> [] \<and> isTicketUrl (nt_url details)
      then (st\<lparr>navigationTabs := insert (nt_tabId details) (navigationTabs st)\<rparr>,
            [(0, ForceSourceNavigation (nt_sourceTabId details) (nt_tabId details)
                   (nt_url details))])
      else if nt_tabId details \<noteq> 0
      then (st\<lparr>navigationTabs := insert (nt_tabId details) (navigationTabs st)\<rparr>, [])
      else (st, []))"

section \<open>Timer callbacks\<close>

text \<open>
  The environment of a timer callback: what \<open>chrome.tabs.get\<close> answers and whether
  \<open>chrome.tabs.remove\<close> resolves.
\<close>

record timerEnv =
  te_tabsGet :: "int \<Rightarrow> tab option"
  te_removeOk :: bool

text \<open>The callback that closes the duplicate tab (lines 330 to 336 and 489 to 495).\<close>

definition closeNewTab :: "timerEnv \<Rightarrow> state \<Rightarrow> int \<Rightarrow> result" where
  "closeNewTab te st newTabId =
     (if tabExists (te_tabsGet te) newTabId then
        (if te_removeOk te then
           \<lparr>res_state = clearNavigationTab newTabId st,
            res_calls = [TabsGet newTabId, TabsRemove newTabId], res_timers = [],
            res_completion = Returned\<rparr>
         else
           \<lparr>res_state = st, res_calls = [TabsGet newTabId, TabsRemove newTabId],
            res_timers = [], res_completion = Threw ApiError\<rparr>)
      else
        \<lparr>res_state = clearNavigationTab newTabId st, res_calls = [TabsGet newTabId],
         res_timers = [], res_completion = Returned\<rparr>)"

text \<open>The callback of \<open>onCreatedNavigationTarget\<close> (lines 811 to 825): both steps catch
  their errors.\<close>

definition forceSourceNavigation :: "timerEnv \<Rightarrow> state \<Rightarrow> int \<Rightarrow> int \<Rightarrow> string \<Rightarrow> result" where
  "forceSourceNavigation te st sourceTabId tabId url =
     \<lparr>res_state = st,
      res_calls = [TabsUpdateUrl sourceTabId url, TabsGet tabId]
        @ (if tabExists (te_tabsGet te) tabId then [TabsRemove tabId] else []),
      res_timers = [], res_completion = Returned\<rparr>"

fun fireTimer :: "timerEnv \<Rightarrow> state \<Rightarrow> timer \<Rightarrow> result" where
  "fireTimer te st ReleaseGlobalLock = finished (st\<lparr>isNavigating := False\<rparr>)"
| "fireTimer te st (ReleaseNavigationKey key) =
     finished (st\<lparr>ongoingNavigations := ongoingNavigations st - {key}\<rparr>)"
| "fireTimer te st (CloseNewTab newTabId) = closeNewTab te st newTabId"
| "fireTimer te st (ForceSourceNavigation sourceTabId tabId url) =
     forceSourceNavigation te st sourceTabId tabId url"

section \<open>A reference platform for plain ASCII URLs\<close>

text \<open>
  The theorems below hold for every platform. Where a statement about one concrete event
  needs the answers of the built-ins, it uses this platform. It gives the browser's answers
  for \<open>http\<close> and \<open>https\<close> URLs of the shape \<open>scheme://host/path?query#fragment\<close>
  written in ASCII, without credentials, port or dot segments, and for percent escapes
  below \<open>%80\<close>; it is not a model of the built-ins beyond that.
\<close>

definition simpleURL :: "string \<Rightarrow> urlParts option" where
  "simpleURL s =
     (case httpScheme s of
        None \<Rightarrow> None
      | Some r \<Rightarrow>
          (let host = takeWhile (\<lambda>c. c \<notin> set ''/?#'') r;
               rest = dropWhile (\<lambda>c. c \<notin> set ''/?#'') r;
               path = takeWhile (\<lambda>c. c \<notin> set ''?#'') rest;
               frag = dropWhile (\<lambda>c. c \<noteq> CHR ''#'') rest
           in if host = [] then None
              else Some \<lparr>url_hostname = toLowerCase host,
                         url_pathname = (if path = [] then ''/'' else path),
                         url_hash = (if frag = ''#'' then [] else frag)\<rparr>))"

text \<open>The four bits of a hexadecimal digit, the lowest first.\<close>

definition hexVal :: "char \<Rightarrow> (bool \<times> bool \<times> bool \<times> bool) option" where
  "hexVal c =
     map_of
       [(CHR ''0'', (False, False, False, False)), (CHR ''1'', (True, False, False, False)),
        (CHR ''2'', (False, True, False, False)), (CHR ''3'', (True, True, False, False)),
        (CHR ''4'', (False, False, True, False)), (CHR ''5'', (True, False, True, False)),
        (CHR ''6'', (False, True, True, False)), (CHR ''7'', (True, True, True, False)),
        (CHR ''8'', (False, False, False, True)), (CHR ''9'', (True, False, False, True)),
        (CHR ''a'', (False, True, False, True)), (CHR ''b'', (True, True, False, True)),
        (CHR ''c'', (False, False, True, True)), (CHR ''d'', (True, False, True, True)),
        (CHR ''e'', (False, True, True, True)), (CHR ''f'', (True, True, True, True)),
        (CHR ''A'', (False, True, False, True)), (CHR ''B'', (True, True, False, True)),
        (CHR ''C'', (False, False, True, True)), (CHR ''D'', (True, False, True, True)),
        (CHR ''E'', (False, True, True, True)), (CHR ''F'', (True, True, True, True))] c"

text \<open>\<open>decodeURIComponent\<close>: a malformed escape is an error; so is, in this reference
  platform, an escape from \<open>%80\<close> on.\<close>

fun decodeStrict :: "string \<Rightarrow> string option" where
  "decodeStrict (c # h1 # h2 # cs) =
     (if c = CHR ''%'' then
        (case (hexVal h1, hexVal h2) of
           (Some (a0, a1, a2, a3), Some (b0, b1, b2, b3)) \<Rightarrow>
             if \<not> a3 then map_option ((#) (Char b0 b1 b2 b3 a0 a1 a2 a3)) (decodeStrict cs)
             else None
         | _ \<Rightarrow> None)
      else map_option ((#) c) (decodeStrict (h1 # h2 # cs)))"
| "decodeStrict (c # cs) =
     (if c = CHR ''%'' then None else map_option ((#) c) (decodeStrict cs))"
| "decodeStrict [] = Some []"

text \<open>The decoding of a name or a value of a query string: \<open>+\<close> is a space, a malformed
  escape stays as it is.\<close>

fun formDecode :: "string \<Rightarrow> string" where
  "formDecode (c # h1 # h2 # cs) =
     (if c = CHR ''%'' then
        (case (hexVal h1, hexVal h2) of
           (Some (a0, a1, a2, a3), Some (b0, b1, b2, b3)) \<Rightarrow>
             Char b0 b1 b2 b3 a0 a1 a2 a3 # formDecode cs
         | _ \<Rightarrow> c # formDecode (h1 # h2 # cs))
      else (if c = CHR ''+'' then CHR '' '' else c) # formDecode (h1 # h2 # cs))"
| "formDecode (c # cs) = (if c = CHR ''+'' then CHR '' '' else c) # formDecode cs"
| "formDecode [] = []"

fun splitOn :: "char \<Rightarrow> string \<Rightarrow> string list" where
  "splitOn d [] = [[]]"
| "splitOn d (c # cs) =
     (if c = d then [] # splitOn d cs
      else (case splitOn d cs of
              [] \<Rightarrow> [[c]]
            | x # xs \<Rightarrow> (c # x) # xs))"

definition simpleSearchGet :: "string \<Rightarrow> string \<Rightarrow> string option" where
  "simpleSearchGet q k =
     (let q' = (case q of [] \<Rightarrow> [] | c # cs \<Rightarrow> if c = CHR ''?'' then cs else q);
          pairs = map (\<lambda>seg. (formDecode (takeWhile (\<lambda>c. c \<noteq> CHR ''='') seg),
                               formDecode (drop 1 (dropWhile (\<lambda>c. c \<noteq> CHR ''='') seg))))
                    (filter (\<lambda>seg. seg \<noteq> []) (splitOn CHR ''&'' q'))
      in map_of pairs k)"

definition simplePlatform :: platform where
  "simplePlatform =
     \<lparr>newURL = simpleURL, searchParamsGet = simpleSearchGet,
      decodeURIComponent = decodeStrict\<rparr>"

section \<open>Example events\<close>

text \<open>
  The state after start-up, a tab of the subdomain \<open>acme\<close> showing a ticket, an
  environment in which every browser call resolves and the only other tab shows ticket 80,
  and a Teams safelink around an encoded URL.
\<close>

definition emptyState :: state where
  "emptyState =
     \<lparr>recentNewTabs = Map.empty, navigationTabs = {}, ongoingNavigations = {},
      isNavigating = False\<rparr>"

definition acmeTab :: "int \<Rightarrow> string \<Rightarrow> tab" where
  "acmeTab i n =
     \<lparr>tab_id = i, tab_url = cleanUrl ''acme'' n, tab_windowId = 1,
      tab_lastAccessed = Some 900\<rparr>"

definition exampleEnv :: env where
  "exampleEnv =
     \<lparr>env_settings = Some True, env_query = Some [acmeTab 3 ''80''], env_focusTab = True,
      env_focusWindow = True, env_script = ScriptResult True, env_updateAfterFailure = True,
      env_updateAfterError = True, env_updateWithReload = True\<rparr>"


section \<open>Properties of the classifier\<close>

lemma stripPrefix_append: "stripPrefix p (p @ s) = Some s"
  by (induction p) simp_all


lemma httpScheme_https: "httpScheme (''https://'' @ r) = Some r"
  by (simp add: httpScheme_def)

lemma zendeskHost_build:
  assumes "s \<noteq> []" and "CHR ''.'' \<notin> set s"
  shows "zendeskHost (''https://'' @ s @ ''.zendesk.com'' @ t) = Some (s, t)"
proof -
  have tw: "takeWhile (\<lambda>c. c \<noteq> CHR ''.'') (s @ ''.zendesk.com'' @ t) = s"
    using assms(2) by (subst takeWhile_append2) auto
  have dw: "dropWhile (\<lambda>c. c \<noteq> CHR ''.'') (s @ ''.zendesk.com'' @ t) = ''.zendesk.com'' @ t"
    using assms(2) by (subst dropWhile_append2) auto
  show ?thesis
    unfolding zendeskHost_def httpScheme_https using assms(1) tw dw
    by (simp add: Let_def)
qed

lemma zendeskHost_sub:
  assumes "zendeskHost u = Some (s, t)"
  shows "s \<noteq> [] \<and> CHR ''.'' \<notin> set s"
  using assms unfolding zendeskHost_def
  by (auto simp: Let_def split: option.splits if_splits dest: set_takeWhileD)

lemma routeTail_digits:
  assumes "routeTail r = Some (ty, n)"
  shows "n \<noteq> [] \<and> (\<forall>c\<in>set n. digit c)"
  using assms unfolding routeTail_def
  by (auto simp: Let_def split: option.splits if_splits dest: set_takeWhileD)

lemma routeTail_tickets:
  assumes "\<forall>c\<in>set n. digit c" and "case r of [] \<Rightarrow> True | c # x \<Rightarrow> \<not> digit c"
  shows "routeTail (''tickets/'' @ n @ r) = (if n = [] then None else Some (''tickets'', n))"
proof -
  have "takeWhile digit (n @ r) = n"
    using assms by (subst takeWhile_append2) (auto split: list.splits)
  then show ?thesis by (simp add: routeTail_def Let_def)
qed

lemma extractSubdomain_sub:
  assumes "extractSubdomain u = Some s"
  shows "s \<noteq> [] \<and> CHR ''.'' \<notin> set s"
  using assms zendeskHost_sub unfolding extractSubdomain_def
  by (auto split: option.splits)

lemma extractTicketNumber_digits:
  assumes "extractTicketNumber u = Some n"
  shows "n \<noteq> [] \<and> (\<forall>c\<in>set n. digit c)"
  using assms routeTail_digits
  unfolding extractTicketNumber_def TICKET_ROUTE_def HASH_TICKET_ROUTE_def
  by (auto split: option.splits prod.splits)

lemma classify_built:
  assumes "s \<noteq> []" and "CHR ''.'' \<notin> set s" and "\<forall>c\<in>set n. digit c"
    and "case r of [] \<Rightarrow> True | c # x \<Rightarrow> \<not> digit c"
  shows "zendeskHost (cleanUrl s n @ r) = Some (s, ''/agent/tickets/'' @ n @ r)"
    and "TICKET_ROUTE (cleanUrl s n @ r) = (if n = [] then None else Some (s, ''tickets'', n))"
    and "HASH_TICKET_ROUTE (cleanUrl s n @ r) = None"
proof -
  have eq: "cleanUrl s n @ r = ''https://'' @ s @ ''.zendesk.com'' @ (''/agent/tickets/'' @ n @ r)"
    by (simp add: cleanUrl_def)
  show h: "zendeskHost (cleanUrl s n @ r) = Some (s, ''/agent/tickets/'' @ n @ r)"
    unfolding eq using assms(1,2) by (rule zendeskHost_build)
  have rt: "routeTail (''tickets/'' @ n @ r) = (if n = [] then None else Some (''tickets'', n))"
    using assms(3,4) by (rule routeTail_tickets)
  show "TICKET_ROUTE (cleanUrl s n @ r) = (if n = [] then None else Some (s, ''tickets'', n))"
    unfolding TICKET_ROUTE_def h using rt by simp
  show "HASH_TICKET_ROUTE (cleanUrl s n @ r) = None"
    unfolding HASH_TICKET_ROUTE_def h by simp
qed

text \<open>
  C8 (as amended): the ticket number is the run of digits that follows \<open>tickets/\<close>;
  text after the digits does not invalidate the match. For a subdomain \<open>s\<close>, digits \<open>n\<close>
  and trailing text \<open>r\<close> that does not begin with a digit, the URL
  \<open>https://s.zendesk.com/agent/tickets/\<close>\<open>n\<close>\<open>r\<close> is a ticket URL with ticket number \<open>n\<close>
  when \<open>n\<close> is not empty, and is not a ticket URL only when no digit follows \<open>tickets/\<close>.
\<close>

theorem ticket_number_is_leading_digit_run:
  assumes "s \<noteq> []" and "CHR ''.'' \<notin> set s" and "list_all digit n"
    and "case r of [] \<Rightarrow> True | c # x \<Rightarrow> \<not> digit c"
  shows "extractTicketNumber (cleanUrl s n @ r) = (if n = [] then None else Some n)
       \<and> isTicketUrl (cleanUrl s n @ r) = (n \<noteq> [])"
proof -
  have d: "\<forall>c\<in>set n. digit c" using assms(3) by (simp add: list_all_iff)
  note T = classify_built(2)[OF assms(1,2) d assms(4)]
    and H = classify_built(3)[OF assms(1,2) d assms(4)]
  show ?thesis unfolding extractTicketNumber_def isTicketUrl_def T H by simp
qed

theorem ticket_number_is_leading_digit_run_witness:
  "''acme'' \<noteq> [] \<and> CHR ''.'' \<notin> set ''acme'' \<and> list_all digit ''123''
   \<and> (case ''abc'' of [] \<Rightarrow> True | c # x \<Rightarrow> \<not> digit c)
   \<and> extractTicketNumber (cleanUrl ''acme'' ''123'' @ ''abc'') = Some ''123''
   \<and> isTicketUrl (cleanUrl ''acme'' ''123'' @ ''abc'')"
  using ticket_number_is_leading_digit_run[of "''acme''" "''123''" "''abc''"]
  by (simp add: digit_def)

text \<open>C8 as stated fails: for \<open>/agent/tickets/123abc\<close> the ticket number 123 is extracted.\<close>

theorem trailing_text_counterexample:
  "extractTicketNumber ''https://acme.zendesk.com/agent/tickets/123abc'' = Some ''123''
   \<and> isTicketUrl ''https://acme.zendesk.com/agent/tickets/123abc''"
  by (simp add: extractTicketNumber_def isTicketUrl_def TICKET_ROUTE_def zendeskHost_def
      httpScheme_def routeTail_def digit_def)

text \<open>
  C9: classification is a function of the URL string alone, and rebuilding is idempotent:
  when \<open>extractSubdomain\<close> and \<open>extractTicketNumber\<close> yield \<open>s\<close> and \<open>n\<close> on a URL, they
  yield \<open>s\<close> and \<open>n\<close> again on the clean URL \<open>https://s.zendesk.com/agent/tickets/n\<close>.
\<close>

theorem classify_rebuilt_url:
  assumes "extractSubdomain u = Some s" and "extractTicketNumber u = Some n"
  shows "extractSubdomain (cleanUrl s n) = Some s \<and> extractTicketNumber (cleanUrl s n) = Some n"
proof -
  have s: "s \<noteq> []" "CHR ''.'' \<notin> set s" using extractSubdomain_sub[OF assms(1)] by simp_all
  have n: "n \<noteq> []" "\<forall>c\<in>set n. digit c" using extractTicketNumber_digits[OF assms(2)] by simp_all
  have r: "case ([]::string) of [] \<Rightarrow> True | c # x \<Rightarrow> \<not> digit c" by simp
  from classify_built(1,2)[OF s n(2) r] n(1)
  show ?thesis by (simp add: extractSubdomain_def extractTicketNumber_def)
qed

theorem classify_rebuilt_url_witness:
  "extractSubdomain ''http://acme.zendesk.com/agent/#/views/360/x'' = Some ''acme''
   \<and> extractTicketNumber ''http://acme.zendesk.com/agent/#/views/360/x'' = Some ''360''
   \<and> extractSubdomain (cleanUrl ''acme'' ''360'') = Some ''acme''
   \<and> extractTicketNumber (cleanUrl ''acme'' ''360'') = Some ''360''"
proof -
  have a: "extractSubdomain ''http://acme.zendesk.com/agent/#/views/360/x'' = Some ''acme''"
    by (simp add: extractSubdomain_def zendeskHost_def httpScheme_def)
  have b: "extractTicketNumber ''http://acme.zendesk.com/agent/#/views/360/x'' = Some ''360''"
    by (simp add: extractTicketNumber_def TICKET_ROUTE_def HASH_TICKET_ROUTE_def zendeskHost_def
        httpScheme_def routeTail_def digit_def)
  show ?thesis using a b classify_rebuilt_url[OF a b] by simp
qed

lemma isTicketUrl_nonempty: "isTicketUrl u \<Longrightarrow> u \<noteq> []"
  by (auto simp: isTicketUrl_def TICKET_ROUTE_def HASH_TICKET_ROUTE_def zendeskHost_def
      httpScheme_def)

section \<open>Properties of the tab tracker\<close>

text \<open>
  C1 (as amended): a tab registered by the navigation-target-created event is in
  \<open>navigationTabs\<close>, and for every tab in \<open>navigationTabs\<close> the recency query
  \<open>isTabRecentlyNew\<close> answers \<open>false\<close> and leaves the state as it is, whatever the time
  and whether or not the tab is also in \<open>recentNewTabs\<close>.
\<close>

theorem navigation_target_not_recent:
  "(nt_tabId d \<noteq> 0 \<longrightarrow> nt_tabId d \<in> navigationTabs (fst (onCreatedNavigationTarget st d)))
   \<and> (tabId \<in> navigationTabs st' \<longrightarrow> isTabRecentlyNew now tabId st' = (False, st'))"
  by (simp add: onCreatedNavigationTarget_def isTabRecentlyNew_def)

theorem navigation_target_not_recent_witness:
  "nt_tabId \<lparr>nt_sourceTabId = 3, nt_tabId = 7, nt_url = ''https://acme.zendesk.com/agent/tickets/500''\<rparr> \<noteq> 0
   \<and> 7 \<in> navigationTabs (fst (onCreatedNavigationTarget emptyState
         \<lparr>nt_sourceTabId = 3, nt_tabId = 7, nt_url = ''https://acme.zendesk.com/agent/tickets/500''\<rparr>))
   \<and> 7 \<in> navigationTabs (emptyState\<lparr>navigationTabs := {7}\<rparr>)
   \<and> isTabRecentlyNew 1000 7 (emptyState\<lparr>navigationTabs := {7}\<rparr>)
       = (False, emptyState\<lparr>navigationTabs := {7}\<rparr>)"
  using navigation_target_not_recent[of "\<lparr>nt_sourceTabId = 3, nt_tabId = 7, nt_url = ''https://acme.zendesk.com/agent/tickets/500''\<rparr>"
      emptyState 7 "emptyState\<lparr>navigationTabs := {7}\<rparr>" 1000]
  by (simp add: emptyState_def)

text \<open>C1 as stated fails: a tab created at time 1000 and registered as a navigation target
  is not reported recent one millisecond later.\<close>

theorem navigation_target_recent_counterexample:
  "\<not> fst (isTabRecentlyNew 1001 7
       (fst (onCreatedNavigationTarget (onCreated 1000 emptyState 7)
          \<lparr>nt_sourceTabId = 3, nt_tabId = 7,
           nt_url = ''https://acme.zendesk.com/agent/tickets/500''\<rparr>)))"
  by (simp add: onCreatedNavigationTarget_def isTabRecentlyNew_def onCreated_def emptyState_def)

text \<open>
  C5: when a navigation-target-created event arrives while \<open>isNavigating\<close> is set, with a
  ticket URL and non-zero tab ids, the listener sets one timer of delay 0 whose callback
  updates the source tab to the URL and then removes the new tab if \<open>tabExists\<close> finds
  it, without an exception escaping; the new tab is put into \<open>navigationTabs\<close>, so that
  \<open>isTabRecentlyNew\<close> answers \<open>false\<close> for it and it cannot start a hand-off.
\<close>

theorem navigation_target_while_navigating:
  assumes "isNavigating st" and "isTicketUrl (nt_url d)"
    and "nt_sourceTabId d \<noteq> 0" and "nt_tabId d \<noteq> 0"
  shows "snd (onCreatedNavigationTarget st d)
           = [(0, ForceSourceNavigation (nt_sourceTabId d) (nt_tabId d) (nt_url d))]
       \<and> res_calls (fireTimer te st' (ForceSourceNavigation (nt_sourceTabId d) (nt_tabId d) (nt_url d)))
           = [TabsUpdateUrl (nt_sourceTabId d) (nt_url d), TabsGet (nt_tabId d)]
             @ (if tabExists (te_tabsGet te) (nt_tabId d) then [TabsRemove (nt_tabId d)] else [])
       \<and> res_completion (fireTimer te st' (ForceSourceNavigation (nt_sourceTabId d) (nt_tabId d) (nt_url d)))
           = Returned
       \<and> fst (isTabRecentlyNew now (nt_tabId d) (fst (onCreatedNavigationTarget st d))) = False"
  using assms isTicketUrl_nonempty[OF assms(2)]
  by (simp add: onCreatedNavigationTarget_def forceSourceNavigation_def isTabRecentlyNew_def)


theorem navigation_target_while_navigating_witness:
  "isNavigating (emptyState\<lparr>isNavigating := True\<rparr>)
   \<and> isTicketUrl ''https://acme.zendesk.com/agent/tickets/500''
   \<and> snd (onCreatedNavigationTarget (emptyState\<lparr>isNavigating := True\<rparr>)
          \<lparr>nt_sourceTabId = 3, nt_tabId = 7,
           nt_url = ''https://acme.zendesk.com/agent/tickets/500''\<rparr>)
       = [(0, ForceSourceNavigation 3 7 ''https://acme.zendesk.com/agent/tickets/500'')]
   \<and> res_calls (fireTimer \<lparr>te_tabsGet = (\<lambda>i. Some (acmeTab i ''500'')), te_removeOk = True\<rparr>
          emptyState (ForceSourceNavigation 3 7 ''https://acme.zendesk.com/agent/tickets/500''))
       = [TabsUpdateUrl 3 ''https://acme.zendesk.com/agent/tickets/500'', TabsGet 7, TabsRemove 7]"
proof -
  have t: "isTicketUrl ''https://acme.zendesk.com/agent/tickets/500''"
    by (simp add: isTicketUrl_def TICKET_ROUTE_def zendeskHost_def httpScheme_def routeTail_def
        digit_def)
  show ?thesis
    using t navigation_target_while_navigating[of "emptyState\<lparr>isNavigating := True\<rparr>"
        "\<lparr>nt_sourceTabId = 3, nt_tabId = 7,
          nt_url = ''https://acme.zendesk.com/agent/tickets/500''\<rparr>"
        "\<lparr>te_tabsGet = (\<lambda>i. Some (acmeTab i ''500'')), te_removeOk = True\<rparr>" emptyState 0]
    by (simp add: emptyState_def tabExists_def acmeTab_def cleanUrl_def)
qed

section \<open>Properties of the hand-off\<close>

lemma tryBlock_locked:
  assumes "extractSubdomain url = Some s" and "extractTicketNumber url = Some n"
    and "navigationKey (Some s) (Some n) \<notin> ongoingNavigations st"
    and "env_settings env = Some b"
  shows "tryBlock P env st newTabId url =
           (let key = navigationKey (Some s) (Some n);
                r = reuseLocked P env (st\<lparr>ongoingNavigations := insert key (ongoingNavigations st)\<rparr>)
                      newTabId b s n
            in r\<lparr>res_calls := StorageGet # res_calls r,
                 res_timers := (5000, ReleaseNavigationKey key) # res_timers r\<rparr>)"
  using assms extractSubdomain_sub[OF assms(1)] extractTicketNumber_digits[OF assms(2)]
  by (simp add: tryBlock_def Let_def)

lemma tryBlock_dropped:
  assumes "extractSubdomain url = Some s" and "extractTicketNumber url = Some n"
    and "navigationKey (Some s) (Some n) \<in> ongoingNavigations st"
  shows "res_state (tryBlock P env st newTabId url) = st"
    and "res_calls (tryBlock P env st newTabId url) = [StorageGet]"
    and "res_timers (tryBlock P env st newTabId url) = []"
  using assms by (simp_all add: tryBlock_def Let_def split: option.splits)

text \<open>
  C3: while the navigation key of a ticket is in \<open>ongoingNavigations\<close>, a second attempt
  for the same key is dropped. \<open>reuseZendeskTab\<close> reads the settings and returns: it makes
  no tab query, no focus or navigation call, sets no timer that closes a tab, and leaves the
  three tables as they are. \<open>processZendeskNavigation\<close> returns at once with the state
  unchanged.
\<close>

theorem second_attempt_is_dropped:
  assumes "extractSubdomain url = Some s" and "extractTicketNumber url = Some n"
    and "navigationKey (Some s) (Some n) \<in> ongoingNavigations st"
  shows "res_calls (reuseZendeskTab P env st newTabId url) = [StorageGet]
       \<and> res_timers (reuseZendeskTab P env st newTabId url) = [(3000, ReleaseGlobalLock)]
       \<and> ongoingNavigations (res_state (reuseZendeskTab P env st newTabId url))
           = ongoingNavigations st
       \<and> recentNewTabs (res_state (reuseZendeskTab P env st newTabId url)) = recentNewTabs st
       \<and> navigationTabs (res_state (reuseZendeskTab P env st newTabId url)) = navigationTabs st
       \<and> processZendeskNavigation P env now st tabId url = finished st"
proof -
  have k: "navigationKey (Some s) (Some n) \<in> ongoingNavigations (st\<lparr>isNavigating := True\<rparr>)"
    using assms(3) by simp
  note d = tryBlock_dropped[OF assms(1,2) k, of P env newTabId]
  have "processZendeskNavigation P env now st tabId url = finished st"
    using assms by (simp add: processZendeskNavigation_def)
  then show ?thesis
    using d
    by (simp add: reuseZendeskTab_def Let_def finallyBlock_def catchBlock_def
        split: completion.splits)
qed


lemma acme_url:
  assumes "list_all digit n" and "n \<noteq> []"
  shows "extractSubdomain (cleanUrl ''acme'' n) = Some ''acme''"
    and "extractTicketNumber (cleanUrl ''acme'' n) = Some n"
proof -
  have d: "\<forall>c\<in>set n. digit c" using assms(1) by (simp add: list_all_iff)
  have r: "case ([]::string) of [] \<Rightarrow> True | c # x \<Rightarrow> \<not> digit c" by simp
  have s: "''acme'' \<noteq> []" "CHR ''.'' \<notin> set ''acme''" by simp_all
  from classify_built(1,2)[OF s d r] assms(2)
  show "extractSubdomain (cleanUrl ''acme'' n) = Some ''acme''"
    and "extractTicketNumber (cleanUrl ''acme'' n) = Some n"
    by (simp_all add: extractSubdomain_def extractTicketNumber_def)
qed

lemma acme500:
  "extractSubdomain (cleanUrl ''acme'' ''500'') = Some ''acme''"
  "extractTicketNumber (cleanUrl ''acme'' ''500'') = Some ''500''"
  by (rule acme_url; simp add: digit_def)+

theorem second_attempt_is_dropped_witness:
  "extractSubdomain (cleanUrl ''acme'' ''500'') = Some ''acme''
   \<and> extractTicketNumber (cleanUrl ''acme'' ''500'') = Some ''500''
   \<and> navigationKey (Some ''acme'') (Some ''500'')
       \<in> ongoingNavigations (emptyState\<lparr>ongoingNavigations := {''acme-500''}\<rparr>)
   \<and> res_calls (reuseZendeskTab simplePlatform exampleEnv
          (emptyState\<lparr>ongoingNavigations := {''acme-500''}\<rparr>) 7 (cleanUrl ''acme'' ''500''))
       = [StorageGet]
   \<and> res_timers (reuseZendeskTab simplePlatform exampleEnv
          (emptyState\<lparr>ongoingNavigations := {''acme-500''}\<rparr>) 7 (cleanUrl ''acme'' ''500''))
       = [(3000, ReleaseGlobalLock)]
   \<and> processZendeskNavigation simplePlatform exampleEnv 1000
        (emptyState\<lparr>ongoingNavigations := {''acme-500''}\<rparr>) 7 (cleanUrl ''acme'' ''500'')
       = finished (emptyState\<lparr>ongoingNavigations := {''acme-500''}\<rparr>)"
proof -
  have k: "navigationKey (Some ''acme'') (Some ''500'')
       \<in> ongoingNavigations (emptyState\<lparr>ongoingNavigations := {''acme-500''}\<rparr>)"
    by (simp add: navigationKey_def jsString_def)
  show ?thesis
    using acme500 k second_attempt_is_dropped[OF acme500 k, of simplePlatform exampleEnv 7 1000 7]
    by simp
qed

lemma handoff_focused:
  assumes "extractSubdomain url = Some s" and "extractTicketNumber url = Some n"
    and "navigationKey (Some s) (Some n) \<notin> ongoingNavigations st"
    and "env_settings env = Some b" and "env_query env = Some allTabs"
    and "candidateTabs newTabId allTabs = c # cs"
    and "toISOStringOk (tab_lastAccessed (chooseTarget c cs))"
    and "env_focusTab env" and "env_focusWindow env"
  shows "tryBlock P env (st\<lparr>isNavigating := True\<rparr>) newTabId url =
     (let key = navigationKey (Some s) (Some n);
          targetTab = chooseTarget c cs;
          url' = cleanUrl s n;
          calls = [StorageGet, TabsQuery (''*://'' @ s @ ''.zendesk.com/*''),
                   TabsUpdateActive (tab_id targetTab),
                   WindowsUpdateFocused (tab_windowId targetTab)]
      in if tab_url targetTab = url' then
           \<lparr>res_state = st\<lparr>isNavigating := False\<rparr>,
            res_calls = calls,
            res_timers = [(5000, ReleaseNavigationKey key), (100, CloseNewTab newTabId)],
            res_completion = Returned\<rparr>
         else (case navigateTarget P env b targetTab url' of
                 (nav, Threw e) \<Rightarrow>
                   \<lparr>res_state = st\<lparr>isNavigating := True,
                        ongoingNavigations := insert key (ongoingNavigations st)\<rparr>,
                    res_calls = calls @ nav,
                    res_timers = [(5000, ReleaseNavigationKey key)],
                    res_completion = Threw e\<rparr>
               | (nav, Returned) \<Rightarrow>
                   \<lparr>res_state = st\<lparr>isNavigating := True\<rparr>,
                    res_calls = calls @ nav,
                    res_timers = [(5000, ReleaseNavigationKey key), (100, CloseNewTab newTabId)],
                    res_completion = Returned\<rparr>))"
proof -
  have k: "navigationKey (Some s) (Some n) \<notin> ongoingNavigations (st\<lparr>isNavigating := True\<rparr>)"
    using assms(3) by simp
  show ?thesis
    unfolding tryBlock_locked[OF assms(1,2) k assms(4)]
    using assms(3,5-9)
    by (simp add: reuseLocked_def Let_def split: prod.splits completion.splits)
qed


text \<open>
  The branch for a target tab that already shows the clean ticket URL (lines 324 to 346),
  once the hand-off has reached it: the browser calls are the settings read, the tab query
  and the two focus calls, so neither a script injection nor a URL update is made; the
  function returns normally, with the navigation key released and the flag cleared, and
  sets the 100 ms timer that closes the new tab. That callback asks \<open>chrome.tabs.get\<close>
  first and calls \<open>chrome.tabs.remove\<close> only if the tab exists; it ends normally when the
  tab does not exist or the removal resolves.
\<close>

lemma same_url_branch:
  assumes "extractSubdomain url = Some s" and "extractTicketNumber url = Some n"
    and "navigationKey (Some s) (Some n) \<notin> ongoingNavigations st"
    and "env_settings env = Some b" and "env_query env = Some allTabs"
    and "candidateTabs newTabId allTabs = c # cs"
    and "toISOStringOk (tab_lastAccessed (chooseTarget c cs))"
    and "env_focusTab env" and "env_focusWindow env"
    and "tab_url (chooseTarget c cs) = cleanUrl s n"
  shows "res_calls (reuseZendeskTab P env st newTabId url)
           = [StorageGet, TabsQuery (''*://'' @ s @ ''.zendesk.com/*''),
              TabsUpdateActive (tab_id (chooseTarget c cs)),
              WindowsUpdateFocused (tab_windowId (chooseTarget c cs))]
       \<and> res_timers (reuseZendeskTab P env st newTabId url)
           = [(3000, ReleaseGlobalLock),
              (5000, ReleaseNavigationKey (navigationKey (Some s) (Some n))),
              (100, CloseNewTab newTabId)]
       \<and> res_completion (reuseZendeskTab P env st newTabId url) = Returned
       \<and> res_state (reuseZendeskTab P env st newTabId url) = st\<lparr>isNavigating := False\<rparr>
       \<and> res_calls (fireTimer te st' (CloseNewTab newTabId))
           = TabsGet newTabId
             # (if tabExists (te_tabsGet te) newTabId then [TabsRemove newTabId] else [])
       \<and> (\<not> tabExists (te_tabsGet te) newTabId \<or> te_removeOk te
            \<longrightarrow> res_completion (fireTimer te st' (CloseNewTab newTabId)) = Returned)"
  unfolding reuseZendeskTab_def handoff_focused[OF assms(1-9)]
  using assms(10)
  by (simp add: Let_def finallyBlock_def closeNewTab_def)

text \<open>
  C7: in a hand-off that has chosen a target tab and focused it, when the URL of the target
  tab differs from the clean ticket URL: in no-reload mode, if the injected script does not
  report success (the promise rejects, the result is missing, or \<open>success\<close> is false), the
  script call is followed by a URL update of the target tab to the clean URL; in reload
  mode the URL update follows the focus calls directly, with no script call.
\<close>

theorem navigation_falls_back_to_url_update:
  assumes "extractSubdomain url = Some s" and "extractTicketNumber url = Some n"
    and "navigationKey (Some s) (Some n) \<notin> ongoingNavigations st"
    and "env_settings env = Some b" and "env_query env = Some allTabs"
    and "candidateTabs newTabId allTabs = c # cs"
    and "toISOStringOk (tab_lastAccessed (chooseTarget c cs))"
    and "env_focusTab env" and "env_focusWindow env"
    and "tab_url (chooseTarget c cs) \<noteq> cleanUrl s n"
  shows "(b \<and> newURL P (tab_url (chooseTarget c cs)) \<noteq> None \<and> env_script env \<noteq> ScriptResult True
            \<longrightarrow> take 5 (res_calls (reuseZendeskTab P env st newTabId url))
                  = [StorageGet, TabsQuery (''*://'' @ s @ ''.zendesk.com/*''),
                     TabsUpdateActive (tab_id (chooseTarget c cs)),
                     WindowsUpdateFocused (tab_windowId (chooseTarget c cs)),
                     ExecuteScript (tab_id (chooseTarget c cs)) (cleanUrl s n)]
                \<and> TabsUpdateUrl (tab_id (chooseTarget c cs)) (cleanUrl s n)
                    \<in> set (drop 5 (res_calls (reuseZendeskTab P env st newTabId url))))
       \<and> (\<not> b
            \<longrightarrow> res_calls (reuseZendeskTab P env st newTabId url)
                  = [StorageGet, TabsQuery (''*://'' @ s @ ''.zendesk.com/*''),
                     TabsUpdateActive (tab_id (chooseTarget c cs)),
                     WindowsUpdateFocused (tab_windowId (chooseTarget c cs)),
                     TabsUpdateUrl (tab_id (chooseTarget c cs)) (cleanUrl s n)])"
proof -
  have nav: "b \<Longrightarrow> newURL P (tab_url (chooseTarget c cs)) \<noteq> None
      \<Longrightarrow> env_script env \<noteq> ScriptResult True
      \<Longrightarrow> \<exists>rest. fst (navigateTarget P env b (chooseTarget c cs) (cleanUrl s n))
            = ExecuteScript (tab_id (chooseTarget c cs)) (cleanUrl s n)
              # TabsUpdateUrl (tab_id (chooseTarget c cs)) (cleanUrl s n) # rest"
    by (cases "env_script env")
      (auto simp: navigateTarget_def Let_def split: option.splits bool.splits)
  have rel: "\<not> b \<Longrightarrow> fst (navigateTarget P env b (chooseTarget c cs) (cleanUrl s n))
            = [TabsUpdateUrl (tab_id (chooseTarget c cs)) (cleanUrl s n)]"
    by (simp add: navigateTarget_def Let_def)
  have calls: "res_calls (reuseZendeskTab P env st newTabId url)
      = [StorageGet, TabsQuery (''*://'' @ s @ ''.zendesk.com/*''),
         TabsUpdateActive (tab_id (chooseTarget c cs)),
         WindowsUpdateFocused (tab_windowId (chooseTarget c cs))]
        @ fst (navigateTarget P env b (chooseTarget c cs) (cleanUrl s n))"
    unfolding reuseZendeskTab_def handoff_focused[OF assms(1-9)]
    using assms(10)
    by (simp add: Let_def finallyBlock_def catchBlock_def split: prod.splits completion.splits)
  show ?thesis
    unfolding calls using nav rel by auto
qed


lemma acme_candidates:
  "candidateTabs 7 [acmeTab 3 n] = [acmeTab 3 n]"
  by (simp add: candidateTabs_def acmeTab_def cleanUrl_def)

lemma acme_target: "chooseTarget (acmeTab 3 n) [] = acmeTab 3 n"
  by (simp add: chooseTarget_def)

lemma acme_key: "navigationKey (Some ''acme'') (Some ''500'') = ''acme-500''"
  by (simp add: navigationKey_def jsString_def)

lemma same_url_branch_example:
  "res_calls (reuseZendeskTab simplePlatform (exampleEnv\<lparr>env_query := Some [acmeTab 3 ''500'']\<rparr>)
          emptyState 7 (cleanUrl ''acme'' ''500''))
       = [StorageGet, TabsQuery ''*://acme.zendesk.com/*'', TabsUpdateActive 3,
          WindowsUpdateFocused 1]
   \<and> res_timers (reuseZendeskTab simplePlatform (exampleEnv\<lparr>env_query := Some [acmeTab 3 ''500'']\<rparr>)
          emptyState 7 (cleanUrl ''acme'' ''500''))
       = [(3000, ReleaseGlobalLock), (5000, ReleaseNavigationKey ''acme-500''),
          (100, CloseNewTab 7)]
   \<and> res_calls (fireTimer \<lparr>te_tabsGet = (\<lambda>i. None), te_removeOk = False\<rparr> emptyState
          (CloseNewTab 7)) = [TabsGet 7]
   \<and> res_completion (fireTimer \<lparr>te_tabsGet = (\<lambda>i. None), te_removeOk = False\<rparr> emptyState
          (CloseNewTab 7)) = Returned
   \<and> res_calls (fireTimer \<lparr>te_tabsGet = (\<lambda>i. Some (acmeTab i ''500'')), te_removeOk = True\<rparr>
          emptyState (CloseNewTab 7)) = [TabsGet 7, TabsRemove 7]
   \<and> res_completion (fireTimer \<lparr>te_tabsGet = (\<lambda>i. Some (acmeTab i ''500'')), te_removeOk = True\<rparr>
          emptyState (CloseNewTab 7)) = Returned"
proof -
  have k: "navigationKey (Some ''acme'') (Some ''500'') \<notin> ongoingNavigations emptyState"
    by (simp add: emptyState_def)
  have b: "env_settings (exampleEnv\<lparr>env_query := Some [acmeTab 3 ''500'']\<rparr>) = Some True"
    and q: "env_query (exampleEnv\<lparr>env_query := Some [acmeTab 3 ''500'']\<rparr>)
              = Some [acmeTab 3 ''500'']"
    and f: "env_focusTab (exampleEnv\<lparr>env_query := Some [acmeTab 3 ''500'']\<rparr>)"
    and w: "env_focusWindow (exampleEnv\<lparr>env_query := Some [acmeTab 3 ''500'']\<rparr>)"
    by (simp_all add: exampleEnv_def)
  have t: "toISOStringOk (tab_lastAccessed (chooseTarget (acmeTab 3 ''500'') []))"
    by (simp add: acme_target) (simp add: acmeTab_def toISOStringOk_def)
  have u: "tab_url (chooseTarget (acmeTab 3 ''500'') []) = cleanUrl ''acme'' ''500''"
    by (simp add: acme_target) (simp add: acmeTab_def)
  have gone: "\<not> tabExists (\<lambda>i. None) 7"
    and there: "tabExists (\<lambda>i. Some (acmeTab i ''500'')) 7"
    by (simp_all add: tabExists_def acmeTab_def)
  show ?thesis
    using same_url_branch[OF acme500 k b q acme_candidates t f w u,
        of simplePlatform "\<lparr>te_tabsGet = (\<lambda>i. None), te_removeOk = False\<rparr>" emptyState]
      same_url_branch[OF acme500 k b q acme_candidates t f w u,
        of simplePlatform "\<lparr>te_tabsGet = (\<lambda>i. Some (acmeTab i ''500'')), te_removeOk = True\<rparr>"
          emptyState]
      gone there
    by (simp add: acme_target acme_key) (simp add: acmeTab_def)
qed

text \<open>
  C6 does not hold of the code. First, the target tab (3) already shows the clean ticket URL
  but the browser reports no \<open>lastAccessed\<close> for it, a value that the selection at line
  309 allows for (\<open>a.lastAccessed || 0\<close>): the log line 313 throws a RangeError before the
  focus calls, so the target tab is not focused, no timer closes the new tab, and the
  function ends with the ReferenceError of the \<open>catch\<close> block. Second, the callback that
  closes the new tab (lines 330 to 336) has no \<open>try\<close>/\<open>catch\<close>, unlike the callback of
  lines 817 to 824: when the tab passes the \<open>tabExists\<close> check and
  \<open>chrome.tabs.remove\<close> then rejects, the rejection escapes the callback.
\<close>

theorem same_url_target_without_lastAccessed:
  "candidateTabs 7 [acmeTab 3 ''500''\<lparr>tab_lastAccessed := None\<rparr>]
     = [acmeTab 3 ''500''\<lparr>tab_lastAccessed := None\<rparr>]
   \<and> tab_url (chooseTarget (acmeTab 3 ''500''\<lparr>tab_lastAccessed := None\<rparr>) [])
       = cleanUrl ''acme'' ''500''
   \<and> res_calls (reuseZendeskTab simplePlatform
          (exampleEnv\<lparr>env_query := Some [acmeTab 3 ''500''\<lparr>tab_lastAccessed := None\<rparr>]\<rparr>)
          emptyState 7 (cleanUrl ''acme'' ''500''))
       = [StorageGet, TabsQuery ''*://acme.zendesk.com/*'']
   \<and> res_timers (reuseZendeskTab simplePlatform
          (exampleEnv\<lparr>env_query := Some [acmeTab 3 ''500''\<lparr>tab_lastAccessed := None\<rparr>]\<rparr>)
          emptyState 7 (cleanUrl ''acme'' ''500''))
       = [(3000, ReleaseGlobalLock), (5000, ReleaseNavigationKey ''acme-500'')]
   \<and> res_completion (reuseZendeskTab simplePlatform
          (exampleEnv\<lparr>env_query := Some [acmeTab 3 ''500''\<lparr>tab_lastAccessed := None\<rparr>]\<rparr>)
          emptyState 7 (cleanUrl ''acme'' ''500''))
       = Threw ReferenceError
   \<and> res_calls (closeNewTab \<lparr>te_tabsGet = (\<lambda>i. Some (acmeTab i ''500'')), te_removeOk = False\<rparr>
          emptyState 7)
       = [TabsGet 7, TabsRemove 7]
   \<and> res_completion (closeNewTab
          \<lparr>te_tabsGet = (\<lambda>i. Some (acmeTab i ''500'')), te_removeOk = False\<rparr> emptyState 7)
       = Threw ApiError"
proof -
  let ?T = "acmeTab 3 ''500''\<lparr>tab_lastAccessed := None\<rparr>"
  have c: "candidateTabs 7 [?T] = [?T]"
    by (simp add: candidateTabs_def acmeTab_def cleanUrl_def)
  have g: "chooseTarget ?T [] = ?T" by (simp add: chooseTarget_def)
  have u: "tab_url ?T = cleanUrl ''acme'' ''500''" by (simp add: acmeTab_def)
  have l: "\<not> toISOStringOk (tab_lastAccessed ?T)" by (simp add: toISOStringOk_def)
  have k: "navigationKey (Some ''acme'') (Some ''500'')
             \<notin> ongoingNavigations (emptyState\<lparr>isNavigating := True\<rparr>)"
    by (simp add: emptyState_def)
  have b: "env_settings (exampleEnv\<lparr>env_query := Some [?T]\<rparr>) = Some True"
    by (simp add: exampleEnv_def)
  have q: "env_query (exampleEnv\<lparr>env_query := Some [?T]\<rparr>) = Some [?T]"
    by simp
  have r: "reuseLocked simplePlatform (exampleEnv\<lparr>env_query := Some [?T]\<rparr>)
             (emptyState\<lparr>isNavigating := True, ongoingNavigations := {''acme-500''}\<rparr>)
             7 True ''acme'' ''500''
           = \<lparr>res_state = emptyState\<lparr>isNavigating := True, ongoingNavigations := {''acme-500''}\<rparr>,
              res_calls = [TabsQuery ''*://acme.zendesk.com/*''], res_timers = [],
              res_completion = Threw RangeError\<rparr>"
    unfolding reuseLocked_def q using l by (simp add: c g Let_def)
  have e: "ongoingNavigations (emptyState\<lparr>isNavigating := True\<rparr>) = {}"
    by (simp add: emptyState_def)
  have h: "res_calls (reuseZendeskTab simplePlatform (exampleEnv\<lparr>env_query := Some [?T]\<rparr>)
               emptyState 7 (cleanUrl ''acme'' ''500''))
             = [StorageGet, TabsQuery ''*://acme.zendesk.com/*'']
         \<and> res_timers (reuseZendeskTab simplePlatform (exampleEnv\<lparr>env_query := Some [?T]\<rparr>)
               emptyState 7 (cleanUrl ''acme'' ''500''))
             = [(3000, ReleaseGlobalLock), (5000, ReleaseNavigationKey ''acme-500'')]
         \<and> res_completion (reuseZendeskTab simplePlatform
               (exampleEnv\<lparr>env_query := Some [?T]\<rparr>) emptyState 7 (cleanUrl ''acme'' ''500''))
             = Threw ReferenceError"
    unfolding reuseZendeskTab_def tryBlock_locked[OF acme500 k b]
    by (simp add: acme_key e r Let_def finallyBlock_def catchBlock_def)
  have cb: "res_calls (closeNewTab
               \<lparr>te_tabsGet = (\<lambda>i. Some (acmeTab i ''500'')), te_removeOk = False\<rparr> emptyState 7)
             = [TabsGet 7, TabsRemove 7]
         \<and> res_completion (closeNewTab
               \<lparr>te_tabsGet = (\<lambda>i. Some (acmeTab i ''500'')), te_removeOk = False\<rparr> emptyState 7)
             = Threw ApiError"
    by (simp add: closeNewTab_def tabExists_def acmeTab_def)
  show ?thesis using c g u h cb by simp
qed

theorem navigation_falls_back_to_url_update_witness:
  "tab_url (chooseTarget (acmeTab 3 ''80'') []) \<noteq> cleanUrl ''acme'' ''500''
   \<and> newURL simplePlatform (tab_url (chooseTarget (acmeTab 3 ''80'') [])) \<noteq> None
   \<and> env_script (exampleEnv\<lparr>env_script := ScriptNoResult\<rparr>) \<noteq> ScriptResult True
   \<and> take 5 (res_calls (reuseZendeskTab simplePlatform (exampleEnv\<lparr>env_script := ScriptNoResult\<rparr>)
          emptyState 7 (cleanUrl ''acme'' ''500'')))
       = [StorageGet, TabsQuery ''*://acme.zendesk.com/*'', TabsUpdateActive 3,
          WindowsUpdateFocused 1, ExecuteScript 3 (cleanUrl ''acme'' ''500'')]
   \<and> TabsUpdateUrl 3 (cleanUrl ''acme'' ''500'')
       \<in> set (drop 5 (res_calls (reuseZendeskTab simplePlatform
            (exampleEnv\<lparr>env_script := ScriptNoResult\<rparr>) emptyState 7 (cleanUrl ''acme'' ''500''))))
   \<and> res_calls (reuseZendeskTab simplePlatform (exampleEnv\<lparr>env_settings := Some False\<rparr>)
          emptyState 7 (cleanUrl ''acme'' ''500''))
       = [StorageGet, TabsQuery ''*://acme.zendesk.com/*'', TabsUpdateActive 3,
          WindowsUpdateFocused 1, TabsUpdateUrl 3 (cleanUrl ''acme'' ''500'')]"
proof -
  have k: "navigationKey (Some ''acme'') (Some ''500'') \<notin> ongoingNavigations emptyState"
    by (simp add: emptyState_def)
  have t: "toISOStringOk (tab_lastAccessed (chooseTarget (acmeTab 3 ''80'') []))"
    by (simp add: acme_target) (simp add: acmeTab_def toISOStringOk_def)
  have u: "tab_url (chooseTarget (acmeTab 3 ''80'') []) \<noteq> cleanUrl ''acme'' ''500''"
    by (simp add: acme_target) (simp add: acmeTab_def cleanUrl_def)
  have p: "newURL simplePlatform (tab_url (chooseTarget (acmeTab 3 ''80'') [])) \<noteq> None"
    by (simp add: acme_target)
      (simp add: acmeTab_def cleanUrl_def simplePlatform_def simpleURL_def httpScheme_def)
  have e1: "env_settings (exampleEnv\<lparr>env_script := ScriptNoResult\<rparr>) = Some True"
    "env_query (exampleEnv\<lparr>env_script := ScriptNoResult\<rparr>) = Some [acmeTab 3 ''80'']"
    "env_focusTab (exampleEnv\<lparr>env_script := ScriptNoResult\<rparr>)"
    "env_focusWindow (exampleEnv\<lparr>env_script := ScriptNoResult\<rparr>)"
    by (simp_all add: exampleEnv_def)
  have e2: "env_settings (exampleEnv\<lparr>env_settings := Some False\<rparr>) = Some False"
    "env_query (exampleEnv\<lparr>env_settings := Some False\<rparr>) = Some [acmeTab 3 ''80'']"
    "env_focusTab (exampleEnv\<lparr>env_settings := Some False\<rparr>)"
    "env_focusWindow (exampleEnv\<lparr>env_settings := Some False\<rparr>)"
    by (simp_all add: exampleEnv_def)
  have s: "env_script (exampleEnv\<lparr>env_script := ScriptNoResult\<rparr>) \<noteq> ScriptResult True"
    by simp
  show ?thesis
    using navigation_falls_back_to_url_update[OF acme500 k e1(1,2) acme_candidates t e1(3,4) u,
        of simplePlatform]
      navigation_falls_back_to_url_update[OF acme500 k e2(1,2) acme_candidates t e2(3,4) u,
        of simplePlatform]
      u p s
    by (simp add: acme_target) (simp add: acmeTab_def)
qed

text \<open>
  C4 does not hold of the code. The target tab (3) is closed after the tab query, so
  \<open>chrome.tabs.update(3, {active: true})\<close> rejects after \<open>acme-500\<close> was added to
  \<open>ongoingNavigations\<close>. The \<open>catch\<close> block throws a ReferenceError before it deletes
  the key: the function ends with that error, the key is still in the set (only the 5000 ms
  timer removes it), and the \<open>finally\<close> block has cleared the flag.
\<close>

theorem exception_leaves_navigation_key:
  "''acme-500''
     \<in> ongoingNavigations (res_state (reuseZendeskTab simplePlatform
          (exampleEnv\<lparr>env_focusTab := False\<rparr>) emptyState 7 (cleanUrl ''acme'' ''500'')))
   \<and> res_completion (reuseZendeskTab simplePlatform
          (exampleEnv\<lparr>env_focusTab := False\<rparr>) emptyState 7 (cleanUrl ''acme'' ''500''))
       = Threw ReferenceError
   \<and> \<not> isNavigating (res_state (reuseZendeskTab simplePlatform
          (exampleEnv\<lparr>env_focusTab := False\<rparr>) emptyState 7 (cleanUrl ''acme'' ''500'')))
   \<and> res_calls (reuseZendeskTab simplePlatform
          (exampleEnv\<lparr>env_focusTab := False\<rparr>) emptyState 7 (cleanUrl ''acme'' ''500''))
       = [StorageGet, TabsQuery ''*://acme.zendesk.com/*'', TabsUpdateActive 3]
   \<and> res_timers (reuseZendeskTab simplePlatform
          (exampleEnv\<lparr>env_focusTab := False\<rparr>) emptyState 7 (cleanUrl ''acme'' ''500''))
       = [(3000, ReleaseGlobalLock), (5000, ReleaseNavigationKey ''acme-500'')]"
proof -
  have k: "navigationKey (Some ''acme'') (Some ''500'')
             \<notin> ongoingNavigations (emptyState\<lparr>isNavigating := True\<rparr>)"
    by (simp add: emptyState_def)
  have b: "env_settings (exampleEnv\<lparr>env_focusTab := False\<rparr>) = Some True"
    by (simp add: exampleEnv_def)
  have q: "env_query (exampleEnv\<lparr>env_focusTab := False\<rparr>) = Some [acmeTab 3 ''80'']"
    by (simp add: exampleEnv_def)
  have t: "toISOStringOk (tab_lastAccessed (acmeTab 3 ''80''))"
    by (simp add: acmeTab_def toISOStringOk_def)
  show ?thesis
    unfolding reuseZendeskTab_def tryBlock_locked[OF acme500 k b]
    using t
    by (simp add: reuseLocked_def q acme_candidates acme_target acme_key Let_def
        finallyBlock_def catchBlock_def)
      (simp add: acmeTab_def)
qed

text \<open>The same for every exception of the \<open>try\<close> block once the key has been added.\<close>

lemma exception_after_lock:
  assumes "extractSubdomain url = Some s" and "extractTicketNumber url = Some n"
    and "navigationKey (Some s) (Some n) \<notin> ongoingNavigations st"
    and "env_settings env = Some b"
    and "res_completion (tryBlock P env (st\<lparr>isNavigating := True\<rparr>) newTabId url) = Threw e"
  shows "navigationKey (Some s) (Some n)
           \<in> ongoingNavigations (res_state (reuseZendeskTab P env st newTabId url))
       \<and> res_completion (reuseZendeskTab P env st newTabId url) = Threw ReferenceError
       \<and> \<not> isNavigating (res_state (reuseZendeskTab P env st newTabId url))"
proof -
  have k: "navigationKey (Some s) (Some n) \<notin> ongoingNavigations (st\<lparr>isNavigating := True\<rparr>)"
    using assms(3) by simp
  show ?thesis
    using assms(5)
    unfolding reuseZendeskTab_def tryBlock_locked[OF assms(1,2) k assms(4)]
    by (auto simp: reuseLocked_def Let_def finallyBlock_def catchBlock_def
        split: option.splits list.splits if_splits prod.splits completion.splits)
qed


lemma acme_url_tail:
  assumes "list_all digit n" and "n \<noteq> []" and "case r of [] \<Rightarrow> True | c # x \<Rightarrow> \<not> digit c"
  shows "extractSubdomain (cleanUrl ''acme'' n @ r) = Some ''acme''"
    and "extractTicketNumber (cleanUrl ''acme'' n @ r) = Some n"
    and "isTicketUrl (cleanUrl ''acme'' n @ r)"
proof -
  have d: "\<forall>c\<in>set n. digit c" using assms(1) by (simp add: list_all_iff)
  have s: "''acme'' \<noteq> []" "CHR ''.'' \<notin> set ''acme''" by simp_all
  from classify_built(1,2)[OF s d assms(3)] assms(2)
  show "extractSubdomain (cleanUrl ''acme'' n @ r) = Some ''acme''"
    and "extractTicketNumber (cleanUrl ''acme'' n @ r) = Some n"
    and "isTicketUrl (cleanUrl ''acme'' n @ r)"
    by (simp_all add: extractSubdomain_def extractTicketNumber_def isTicketUrl_def)
qed

section \<open>Properties of the dispatcher\<close>


lemma handleNavigation_plain:
  assumes "\<not> isNavigating st" and "\<not> TEAMS_SAFEURL u" and "isTicketUrl u"
    and "navigationKey (extractSubdomain u) (extractTicketNumber u) \<notin> ongoingNavigations st"
  shows "handleNavigation P env now st \<lparr>nd_tabId = t, nd_url = u, nd_frameId = 0\<rparr>
           = (case isTabRecentlyNew now t st of
                (False, st') \<Rightarrow> finished st'
              | (True, st') \<Rightarrow> reuseZendeskTab P env st' t u)"
  using assms
  by (auto simp: handleNavigation_def earlyLoopDetected_def processZendeskNavigation_def
      split: option.splits bool.splits prod.splits)

text \<open>
  C2 (as amended): background.js has no notion of a restricted URL. For a navigation event
  whose URL is restricted (\<open>isRestrictedZendeskUrl\<close> of the V1.2 worker) and matches neither
  ticket route, nor is a Teams safelink, \<open>handleNavigation\<close> returns with the state
  unchanged: no browser call, no timer, no change of the tracking tables.
\<close>

theorem restricted_view_without_ticket_route_ignored:
  assumes "isRestrictedZendeskUrl P u" and "\<not> isTicketUrl u" and "\<not> TEAMS_SAFEURL u"
  shows "handleNavigation P env now st \<lparr>nd_tabId = t, nd_url = u, nd_frameId = f\<rparr> = finished st"
  using assms by (simp add: handleNavigation_def)


text \<open>The restricted views directly under the host match neither ticket route.\<close>

lemma restricted_views_are_not_ticket_urls:
  assumes "s \<noteq> []" and "CHR ''.'' \<notin> set s"
    and "p \<in> {''/agent/chat'', ''/agent/talk'', ''/agent/voice'', ''/agent/admin/voice'',
              ''/tickets/''}"
  shows "\<not> isTicketUrl (''https://'' @ s @ ''.zendesk.com'' @ p @ r)"
  using assms(3) zendeskHost_build[OF assms(1,2), of "p @ r"]
  by (auto simp: isTicketUrl_def TICKET_ROUTE_def HASH_TICKET_ROUTE_def routeTail_def)


lemma created_tab_is_recent:
  "isTabRecentlyNew 1000 7 (onCreated 900 emptyState 7) = (True, onCreated 900 emptyState 7)"
  by (simp add: isTabRecentlyNew_def onCreated_def markTabNew_def emptyState_def
      NEW_TAB_WINDOW_MS_def Let_def)

lemma created_tab_state:
  "\<not> isNavigating (onCreated 900 emptyState 7)"
  "ongoingNavigations (onCreated 900 emptyState 7) = {}"
  by (simp_all add: onCreated_def markTabNew_def emptyState_def)

lemma handoff_reload_example:
  assumes "extractSubdomain u = Some ''acme''" and "extractTicketNumber u = Some n"
    and "n \<noteq> ''80''"
    and "navigationKey (Some ''acme'') (Some n) \<notin> ongoingNavigations st"
  shows "res_calls (reuseZendeskTab P (exampleEnv\<lparr>env_settings := Some False\<rparr>) st 7 u)
           = [StorageGet, TabsQuery ''*://acme.zendesk.com/*'', TabsUpdateActive 3,
              WindowsUpdateFocused 1, TabsUpdateUrl 3 (cleanUrl ''acme'' n)]"
    and "res_timers (reuseZendeskTab P (exampleEnv\<lparr>env_settings := Some False\<rparr>) st 7 u)
           = [(3000, ReleaseGlobalLock),
              (5000, ReleaseNavigationKey (navigationKey (Some ''acme'') (Some n))),
              (100, CloseNewTab 7)]"
proof -
  have e: "env_settings (exampleEnv\<lparr>env_settings := Some False\<rparr>) = Some False"
    "env_query (exampleEnv\<lparr>env_settings := Some False\<rparr>) = Some [acmeTab 3 ''80'']"
    "env_focusTab (exampleEnv\<lparr>env_settings := Some False\<rparr>)"
    "env_focusWindow (exampleEnv\<lparr>env_settings := Some False\<rparr>)"
    "env_updateWithReload (exampleEnv\<lparr>env_settings := Some False\<rparr>)"
    by (simp_all add: exampleEnv_def)
  have t: "toISOStringOk (tab_lastAccessed (chooseTarget (acmeTab 3 ''80'') []))"
    by (simp add: acme_target) (simp add: acmeTab_def toISOStringOk_def)
  have u: "tab_url (acmeTab 3 ''80'') \<noteq> cleanUrl ''acme'' n"
    using assms(3) by (auto simp: acmeTab_def cleanUrl_def)
  have i: "tab_id (acmeTab 3 ''80'') = 3" "tab_windowId (acmeTab 3 ''80'') = 1"
    by (simp_all add: acmeTab_def)
  note h = handoff_focused[OF assms(1,2,4) e(1,2) acme_candidates t e(3,4), of P]
  show "res_calls (reuseZendeskTab P (exampleEnv\<lparr>env_settings := Some False\<rparr>) st 7 u)
           = [StorageGet, TabsQuery ''*://acme.zendesk.com/*'', TabsUpdateActive 3,
              WindowsUpdateFocused 1, TabsUpdateUrl 3 (cleanUrl ''acme'' n)]"
    unfolding reuseZendeskTab_def h using u i e(5)
    by (simp add: acme_target Let_def finallyBlock_def navigateTarget_def)
  show "res_timers (reuseZendeskTab P (exampleEnv\<lparr>env_settings := Some False\<rparr>) st 7 u)
           = [(3000, ReleaseGlobalLock),
              (5000, ReleaseNavigationKey (navigationKey (Some ''acme'') (Some n))),
              (100, CloseNewTab 7)]"
    unfolding reuseZendeskTab_def h using u i e(5)
    by (simp add: acme_target Let_def finallyBlock_def navigateTarget_def)
qed

text \<open>
  C2 as stated fails: \<open>/agent/tickets/123/print\<close> is restricted and matches
  \<open>TICKET_ROUTE\<close>; for a tab created 100 ms before, the hand-off runs.
\<close>

theorem restricted_print_view_counterexample:
  "isRestrictedZendeskUrl simplePlatform (cleanUrl ''acme'' ''123'' @ ''/print'')
   \<and> res_calls (handleNavigation simplePlatform (exampleEnv\<lparr>env_settings := Some False\<rparr>) 1000
          (onCreated 900 emptyState 7)
          \<lparr>nd_tabId = 7, nd_url = cleanUrl ''acme'' ''123'' @ ''/print'', nd_frameId = 0\<rparr>)
       = [StorageGet, TabsQuery ''*://acme.zendesk.com/*'', TabsUpdateActive 3,
          WindowsUpdateFocused 1, TabsUpdateUrl 3 (cleanUrl ''acme'' ''123'')]
   \<and> res_timers (handleNavigation simplePlatform (exampleEnv\<lparr>env_settings := Some False\<rparr>) 1000
          (onCreated 900 emptyState 7)
          \<lparr>nd_tabId = 7, nd_url = cleanUrl ''acme'' ''123'' @ ''/print'', nd_frameId = 0\<rparr>)
       = [(3000, ReleaseGlobalLock), (5000, ReleaseNavigationKey ''acme-123''),
          (100, CloseNewTab 7)]"
proof -
  have r: "isRestrictedZendeskUrl simplePlatform (cleanUrl ''acme'' ''123'' @ ''/print'')"
    by (simp add: cleanUrl_def isRestrictedZendeskUrl_def simplePlatform_def simpleURL_def
        httpScheme_def toLowerCase_def lowerChar_def zendeskHostname_def restrictedView_def
        printViewAt_def digit_def)
  have d: "list_all digit ''123''" "''123'' \<noteq> []"
    "case ''/print'' of [] \<Rightarrow> True | c # x \<Rightarrow> \<not> digit c"
    by (simp_all add: digit_def)
  note x = acme_url_tail[OF d]
  have nt: "\<not> TEAMS_SAFEURL (cleanUrl ''acme'' ''123'' @ ''/print'')"
    by (simp add: cleanUrl_def TEAMS_SAFEURL_def httpScheme_def)
  have k: "navigationKey (extractSubdomain (cleanUrl ''acme'' ''123'' @ ''/print''))
             (extractTicketNumber (cleanUrl ''acme'' ''123'' @ ''/print''))
           \<notin> ongoingNavigations (onCreated 900 emptyState 7)"
    by (simp add: created_tab_state)
  have k': "navigationKey (Some ''acme'') (Some ''123'')
           \<notin> ongoingNavigations (onCreated 900 emptyState 7)"
    by (simp add: created_tab_state)
  have kk: "navigationKey (Some ''acme'') (Some ''123'') = ''acme-123''"
    by (simp add: navigationKey_def jsString_def)
  have n: "''123'' \<noteq> ''80''" by simp
  show ?thesis
    using r
    unfolding handleNavigation_plain[OF created_tab_state(1) nt x(3) k] created_tab_is_recent
    by (simp add: handoff_reload_example[OF x(1,2) n k'] kk)
qed

theorem restricted_view_without_ticket_route_ignored_witness:
  "isRestrictedZendeskUrl simplePlatform ''https://acme.zendesk.com/agent/chat/5''
   \<and> \<not> isTicketUrl ''https://acme.zendesk.com/agent/chat/5''
   \<and> \<not> TEAMS_SAFEURL ''https://acme.zendesk.com/agent/chat/5''
   \<and> handleNavigation simplePlatform exampleEnv 1000 (onCreated 900 emptyState 7)
        \<lparr>nd_tabId = 7, nd_url = ''https://acme.zendesk.com/agent/chat/5'', nd_frameId = 0\<rparr>
       = finished (onCreated 900 emptyState 7)"
proof -
  have r: "isRestrictedZendeskUrl simplePlatform ''https://acme.zendesk.com/agent/chat/5''"
    by (simp add: isRestrictedZendeskUrl_def simplePlatform_def simpleURL_def
        httpScheme_def toLowerCase_def lowerChar_def zendeskHostname_def restrictedView_def)
  have t: "\<not> isTicketUrl ''https://acme.zendesk.com/agent/chat/5''"
    by (simp add: isTicketUrl_def TICKET_ROUTE_def HASH_TICKET_ROUTE_def zendeskHost_def
        httpScheme_def routeTail_def)
  have s: "\<not> TEAMS_SAFEURL ''https://acme.zendesk.com/agent/chat/5''"
    by (simp add: TEAMS_SAFEURL_def httpScheme_def)
  show ?thesis
    using r t s restricted_view_without_ticket_route_ignored[OF r t s, of exampleEnv 1000
        "onCreated 900 emptyState 7" 7 0]
    by simp
qed








end
